theory Spec2Isabelle
  imports Complex_Main "HOL-Library.Sublist" "HOL-Library.Multiset"
begin

section \<open>Parsed JSON values and the Python operations the code applies to them\<close>

text \<open>
  The three functions of \<^verbatim>\<open>streamlit_app.py\<close> receive what \<^verbatim>\<open>json.loads\<close> returns (or one
  of the two sample dictionaries): \<^verbatim>\<open>None\<close>, a \<^verbatim>\<open>bool\<close>, an \<^verbatim>\<open>int\<close>, a \<^verbatim>\<open>float\<close>, a \<^verbatim>\<open>str\<close>,
  a \<^verbatim>\<open>list\<close> or a \<^verbatim>\<open>dict\<close> with string keys. A dict is the list of its items in insertion
  order (its keys are distinct); a finite float is the real number it denotes; a character
  of a string stands for one code point.
\<close>

datatype json =
    JNull
  | JBool bool
  | JInt int
  | JFloat real
  | JStr string
  | JArr "json list"
  | JObj "(string \<times> json) list"

text \<open>
  The exceptions the code can meet, each with its text (\<^verbatim>\<open>str(e)\<close>, or \<^verbatim>\<open>e.message\<close> for a
  \<^verbatim>\<open>jsonschema.exceptions.ValidationError\<close>). A computation that may raise returns
  \<open>Inl\<close> of the exception or \<open>Inr\<close> of its value.
\<close>

datatype py_exn =
    AttributeError string
  | TypeError string
  | KeyError string
  | ValidationError string

type_synonym 'a result = "py_exn + 'a"

definition rbind :: "'a result \<Rightarrow> ('a \<Rightarrow> 'b result) \<Rightarrow> 'b result" where
  "rbind m f = (case m of Inl e \<Rightarrow> Inl e | Inr x \<Rightarrow> f x)"

fun exn_str :: "py_exn \<Rightarrow> string" where
  "exn_str (AttributeError t) = t"
| "exn_str (TypeError t) = t"
| "exn_str (KeyError t) = t"
| "exn_str (ValidationError t) = t"

fun type_name :: "json \<Rightarrow> string" where
  "type_name JNull = ''NoneType''"
| "type_name (JBool _) = ''bool''"
| "type_name (JInt _) = ''int''"
| "type_name (JFloat _) = ''float''"
| "type_name (JStr _) = ''str''"
| "type_name (JArr _) = ''list''"
| "type_name (JObj _) = ''dict''"

definition quoted :: "string \<Rightarrow> string" where
  "quoted s = [CHR 0x27] @ s @ [CHR 0x27]"

definition no_attribute :: "json \<Rightarrow> string \<Rightarrow> py_exn" where
  "no_attribute x a = AttributeError (quoted (type_name x) @ '' object has no attribute '' @ quoted a)"

text \<open>\<^verbatim>\<open>x.get(k, default)\<close>: only a dict has the method.\<close>

fun py_get :: "json \<Rightarrow> string \<Rightarrow> json \<Rightarrow> json result" where
  "py_get (JObj kvs) k dflt = Inr (case map_of kvs k of None \<Rightarrow> dflt | Some v \<Rightarrow> v)"
| "py_get x k dflt = Inl (no_attribute x ''get'')"

text \<open>\<^verbatim>\<open>x.keys()\<close>, as the list of keys in the dict's order.\<close>

fun py_keys :: "json \<Rightarrow> string list result" where
  "py_keys (JObj kvs) = Inr (map fst kvs)"
| "py_keys x = Inl (no_attribute x ''keys'')"

text \<open>\<^verbatim>\<open>len(x)\<close>: defined on lists, strings and dicts.\<close>

fun py_len :: "json \<Rightarrow> nat result" where
  "py_len (JArr xs) = Inr (length xs)"
| "py_len (JStr s) = Inr (length s)"
| "py_len (JObj kvs) = Inr (length kvs)"
| "py_len x = Inl (TypeError (''object of type '' @ quoted (type_name x) @ '' has no len()''))"

text \<open>
  \<^verbatim>\<open>for feature in x\<close>: a list yields its elements, a string its characters as strings of
  length one, a dict its keys.
\<close>

fun py_iter :: "json \<Rightarrow> json list result" where
  "py_iter (JArr xs) = Inr xs"
| "py_iter (JStr s) = Inr (map (\<lambda>c. JStr [c]) s)"
| "py_iter (JObj kvs) = Inr (map (\<lambda>kv. JStr (fst kv)) kvs)"
| "py_iter x = Inl (TypeError (quoted (type_name x) @ '' object is not iterable''))"

text \<open>Truth value of an object in a condition.\<close>

fun py_truthy :: "json \<Rightarrow> bool" where
  "py_truthy JNull = False"
| "py_truthy (JBool b) = b"
| "py_truthy (JInt i) = (i \<noteq> 0)"
| "py_truthy (JFloat r) = (r \<noteq> 0)"
| "py_truthy (JStr s) = (s \<noteq> [])"
| "py_truthy (JArr xs) = (xs \<noteq> [])"
| "py_truthy (JObj kvs) = (kvs \<noteq> [])"

text \<open>
  \<^verbatim>\<open>x == y\<close>. Booleans and numbers compare by value (\<^verbatim>\<open>True == 1 == 1.0\<close>), lists
  elementwise, dicts as mappings whatever the order of their items.
\<close>

fun py_num :: "json \<Rightarrow> real option" where
  "py_num (JBool b) = Some (if b then 1 else 0)"
| "py_num (JInt i) = Some (of_int i)"
| "py_num (JFloat r) = Some r"
| "py_num x = None"

fun py_eq :: "json \<Rightarrow> json \<Rightarrow> bool" where
  "py_eq JNull y = (y = JNull)"
| "py_eq (JBool b) y = (py_num y = Some (if b then 1 else 0))"
| "py_eq (JInt i) y = (py_num y = Some (of_int i))"
| "py_eq (JFloat r) y = (py_num y = Some r)"
| "py_eq (JStr s) y = (y = JStr s)"
| "py_eq (JArr xs) (JArr ys) = list_all2 py_eq xs ys"
| "py_eq (JArr xs) y = False"
| "py_eq (JObj kvs) (JObj lws) =
     (length kvs = length lws \<and>
      list_all (\<lambda>kv. case map_of lws (fst kv) of None \<Rightarrow> False | Some w \<Rightarrow> py_eq (snd kv) w) kvs)"
| "py_eq (JObj kvs) y = False"

text \<open>
  \<^verbatim>\<open>key in x\<close> for a string \<^verbatim>\<open>key\<close>: a key of a dict, an element of a list, a substring of
  a string; any other operand is not a container.
\<close>

fun py_contains :: "string \<Rightarrow> json \<Rightarrow> bool result" where
  "py_contains k (JObj kvs) = Inr (k \<in> set (map fst kvs))"
| "py_contains k (JArr xs) = Inr (list_ex (\<lambda>x. py_eq x (JStr k)) xs)"
| "py_contains k (JStr s) = Inr (sublist k s)"
| "py_contains k x = Inl (TypeError (''argument of type '' @ quoted (type_name x) @ '' is not iterable''))"

text \<open>\<^verbatim>\<open>x[key]\<close> for a string \<^verbatim>\<open>key\<close>.\<close>

fun py_getitem :: "json \<Rightarrow> string \<Rightarrow> json result" where
  "py_getitem (JObj kvs) k = (case map_of kvs k of None \<Rightarrow> Inl (KeyError (quoted k)) | Some v \<Rightarrow> Inr v)"
| "py_getitem (JArr xs) k = Inl (TypeError ''list indices must be integers or slices, not str'')"
| "py_getitem (JStr s) k = Inl (TypeError ''string indices must be integers, not str'')"
| "py_getitem x k = Inl (TypeError (quoted (type_name x) @ '' object is not subscriptable''))"

text \<open>
  A dict key is looked up by hash and equality, so \<^verbatim>\<open>1\<close>, \<^verbatim>\<open>1.0\<close> and \<^verbatim>\<open>True\<close> are one key;
  lists and dicts are unhashable.
\<close>

datatype pykey = KNone | KNum real | KStr string

fun py_hash :: "json \<Rightarrow> pykey result" where
  "py_hash JNull = Inr KNone"
| "py_hash (JBool b) = Inr (KNum (if b then 1 else 0))"
| "py_hash (JInt i) = Inr (KNum (of_int i))"
| "py_hash (JFloat r) = Inr (KNum r)"
| "py_hash (JStr s) = Inr (KStr s)"
| "py_hash x = Inl (TypeError (''unhashable type: '' @ quoted (type_name x)))"

text \<open>\<^verbatim>\<open>s.update(ks)\<close> on a set of strings, held as a list without duplicates.\<close>

definition set_update :: "string list \<Rightarrow> string list \<Rightarrow> string list" where
  "set_update s ks = List.union ks s"

section \<open>\<^verbatim>\<open>analyze_geojson\<close>\<close>

text \<open>
  The report is a dict whose keys are set branch by branch; a key that was not set is
  \<open>None\<close> here. \<open>atype\<close> is the key \<^verbatim>\<open>"type"\<close>, which is always set.
\<close>

record analysis =
  atype :: json
  feature_count :: "nat option"
  geometry_types :: "(pykey \<rightharpoonup> nat) option"
  geometry_type :: "json option"
  property_keys :: "string list option"

definition geometry_names :: "string list" where
  "geometry_names = [''Point'', ''LineString'', ''Polygon'', ''MultiPoint'',
                     ''MultiLineString'', ''MultiPolygon'', ''GeometryCollection'']"

text \<open>\<^verbatim>\<open>feature_types[geo_type] = feature_types.get(geo_type, 0) + 1\<close>\<close>

definition tally :: "(pykey \<rightharpoonup> nat) \<Rightarrow> json \<Rightarrow> (pykey \<rightharpoonup> nat) result" where
  "tally feature_types geo_type =
     rbind (py_hash geo_type) (\<lambda>k.
       Inr (feature_types(k \<mapsto> (case feature_types k of None \<Rightarrow> 0 | Some c \<Rightarrow> c) + 1)))"

text \<open>
  \<^verbatim>\<open>if "properties" in x and x["properties"]: keys.update(x["properties"].keys())\<close>,
  the statement shared by both functions and all three loops.
\<close>

definition collect_keys :: "string list \<Rightarrow> json \<Rightarrow> string list result" where
  "collect_keys keys x =
     rbind (py_contains ''properties'' x) (\<lambda>present.
       if \<not> present then Inr keys
       else rbind (py_getitem x ''properties'') (\<lambda>props.
         if \<not> py_truthy props then Inr keys
         else rbind (py_keys props) (\<lambda>ks. Inr (set_update keys ks))))"

text \<open>The body of the loop over the features of a FeatureCollection (lines 64 to 70).\<close>

definition analyze_feature ::
  "(pykey \<rightharpoonup> nat) \<times> string list \<Rightarrow> json \<Rightarrow> ((pykey \<rightharpoonup> nat) \<times> string list) result" where
  "analyze_feature st feature =
     rbind (py_get feature ''geometry'' (JObj [])) (\<lambda>geometry.
     rbind (py_get geometry ''type'' (JStr ''Unknown'')) (\<lambda>geo_type.
     rbind (tally (fst st) geo_type) (\<lambda>feature_types.
     rbind (collect_keys (snd st) feature) (\<lambda>property_keys.
       Inr (feature_types, property_keys)))))"

fun analyze_loop ::
  "(pykey \<rightharpoonup> nat) \<times> string list \<Rightarrow> json list \<Rightarrow> ((pykey \<rightharpoonup> nat) \<times> string list) result" where
  "analyze_loop st [] = Inr st"
| "analyze_loop st (feature # features) =
     rbind (analyze_feature st feature) (\<lambda>st'. analyze_loop st' features)"

definition analyze_geojson :: "json \<Rightarrow> analysis result" where
  "analyze_geojson data =
     rbind (py_get data ''type'' (JStr ''Unknown'')) (\<lambda>t.
       let analysis0 = \<lparr>atype = t, feature_count = None, geometry_types = None,
                         geometry_type = None, property_keys = None\<rparr>
       in
       if py_eq t (JStr ''FeatureCollection'') then
         rbind (py_get data ''features'' (JArr [])) (\<lambda>features.
         rbind (py_len features) (\<lambda>n.
         rbind (py_iter features) (\<lambda>fs.
         rbind (analyze_loop (Map.empty, []) fs) (\<lambda>st.
           Inr (analysis0\<lparr>feature_count := Some n, geometry_types := Some (fst st),
                           property_keys := Some (snd st)\<rparr>)))))
       else if py_eq t (JStr ''Feature'') then
         rbind (py_get data ''geometry'' (JObj [])) (\<lambda>geometry.
         rbind (py_get geometry ''type'' (JStr ''Unknown'')) (\<lambda>geo_type.
         rbind (py_contains ''properties'' data) (\<lambda>present.
           if \<not> present then Inr (analysis0\<lparr>geometry_type := Some geo_type\<rparr>)
           else rbind (py_getitem data ''properties'') (\<lambda>props.
             if \<not> py_truthy props then Inr (analysis0\<lparr>geometry_type := Some geo_type\<rparr>)
             else rbind (py_keys props) (\<lambda>ks.
               Inr (analysis0\<lparr>geometry_type := Some geo_type, property_keys := Some ks\<rparr>))))))
       else if list_ex (\<lambda>g. py_eq t (JStr g)) geometry_names then
         Inr (analysis0\<lparr>geometry_type := Some t\<rparr>)
       else Inr analysis0)"

section \<open>\<^verbatim>\<open>compare_geojson\<close>\<close>

record comparison =
  different_types :: bool
  feature_count_1 :: "nat option"
  feature_count_2 :: "nat option"
  feature_count_diff :: "int option"
  unique_keys_1 :: "string list option"
  unique_keys_2 :: "string list option"
  common_keys :: "string list option"

fun keys_loop :: "string list \<Rightarrow> json list \<Rightarrow> string list result" where
  "keys_loop keys [] = Inr keys"
| "keys_loop keys (feature # features) =
     rbind (collect_keys keys feature) (\<lambda>keys'. keys_loop keys' features)"

definition compare_geojson :: "json \<Rightarrow> json \<Rightarrow> comparison result" where
  "compare_geojson geojson1 geojson2 =
     rbind (py_get geojson1 ''type'' JNull) (\<lambda>t1.
     rbind (py_get geojson2 ''type'' JNull) (\<lambda>t2.
       let differences0 = \<lparr>different_types = \<not> py_eq t1 t2,
                            feature_count_1 = None, feature_count_2 = None,
                            feature_count_diff = None, unique_keys_1 = None,
                            unique_keys_2 = None, common_keys = None\<rparr>
       in
       if py_eq t1 (JStr ''FeatureCollection'') \<and> py_eq t2 (JStr ''FeatureCollection'') then
         rbind (py_get geojson1 ''features'' (JArr [])) (\<lambda>features1.
         rbind (py_get geojson2 ''features'' (JArr [])) (\<lambda>features2.
         rbind (py_len features1) (\<lambda>n1.
         rbind (py_len features2) (\<lambda>n2.
         rbind (py_iter features1) (\<lambda>fs1.
         rbind (keys_loop [] fs1) (\<lambda>keys1.
         rbind (py_iter features2) (\<lambda>fs2.
         rbind (keys_loop [] fs2) (\<lambda>keys2.
           Inr (differences0\<lparr>feature_count_1 := Some n1, feature_count_2 := Some n2,
                              feature_count_diff := Some (int n1 - int n2),
                              unique_keys_1 := Some (filter (\<lambda>k. k \<notin> set keys2) keys1),
                              unique_keys_2 := Some (filter (\<lambda>k. k \<notin> set keys1) keys2),
                              common_keys := Some (filter (\<lambda>k. k \<in> set keys2) keys1)\<rparr>)))))))))
       else Inr differences0))"

section \<open>\<^verbatim>\<open>validate_geojson\<close>\<close>

text \<open>
  The schema literal of lines 19 to 30, with the keywords it uses: \<^verbatim>\<open>type\<close>,
  \<^verbatim>\<open>required\<close>, \<^verbatim>\<open>properties\<close> and, one level down, \<^verbatim>\<open>type\<close> and \<^verbatim>\<open>enum\<close>.
\<close>

datatype jtype = TObject | TArray | TString

record prop_schema =
  p_type :: jtype
  p_enum :: "string list option"

record schema =
  s_type :: jtype
  s_required :: "string list"
  s_properties :: "(string \<times> prop_schema) list"

definition geojson_schema :: schema where
  "geojson_schema =
     \<lparr>s_type = TObject,
      s_required = [''type''],
      s_properties =
        [(''type'', \<lparr>p_type = TString,
                     p_enum = Some [''FeatureCollection'', ''Feature'', ''Point'', ''LineString'',
                                    ''Polygon'', ''MultiPoint'', ''MultiLineString'',
                                    ''MultiPolygon'', ''GeometryCollection'']\<rparr>),
         (''features'', \<lparr>p_type = TArray, p_enum = None\<rparr>),
         (''geometry'', \<lparr>p_type = TObject, p_enum = None\<rparr>),
         (''properties'', \<lparr>p_type = TObject, p_enum = None\<rparr>),
         (''coordinates'', \<lparr>p_type = TArray, p_enum = None\<rparr>)]\<rparr>"

text \<open>
  JSON Schema validation as \<^verbatim>\<open>jsonschema\<close> does it for these keywords: \<^verbatim>\<open>type\<close> tests the
  Python type of the instance, \<^verbatim>\<open>enum\<close> membership; \<^verbatim>\<open>required\<close> and \<^verbatim>\<open>properties\<close> look
  only at instances that are objects, and \<^verbatim>\<open>properties\<close> only at the keys that are there.
\<close>

fun has_type :: "jtype \<Rightarrow> json \<Rightarrow> bool" where
  "has_type TObject x = (case x of JObj _ \<Rightarrow> True | _ \<Rightarrow> False)"
| "has_type TArray x = (case x of JArr _ \<Rightarrow> True | _ \<Rightarrow> False)"
| "has_type TString x = (case x of JStr _ \<Rightarrow> True | _ \<Rightarrow> False)"

definition prop_conforms :: "prop_schema \<Rightarrow> json \<Rightarrow> bool" where
  "prop_conforms ps x =
     (has_type (p_type ps) x \<and>
      (case p_enum ps of None \<Rightarrow> True | Some es \<Rightarrow> list_ex (\<lambda>e. x = JStr e) es))"

definition conforms :: "schema \<Rightarrow> json \<Rightarrow> bool" where
  "conforms sch x =
     (has_type (s_type sch) x \<and>
      (case x of
         JObj kvs \<Rightarrow>
           list_all (\<lambda>k. k \<in> set (map fst kvs)) (s_required sch) \<and>
           list_all (\<lambda>kp. case map_of kvs (fst kp) of None \<Rightarrow> True
                                                     | Some v \<Rightarrow> prop_conforms (snd kp) v)
                    (s_properties sch)
       | _ \<Rightarrow> True))"

text \<open>
  \<^verbatim>\<open>jsonschema.validate(instance, schema)\<close> returns nothing when the instance conforms and
  raises a ValidationError otherwise. Which of the violations the library reports, and the
  text it gives it, is the library's business: \<open>e_message\<close> stands for that text.
\<close>

definition jsonschema_validate :: "(json \<Rightarrow> string) \<Rightarrow> json \<Rightarrow> schema \<Rightarrow> unit result" where
  "jsonschema_validate e_message instance sch =
     (if conforms sch instance then Inr () else Inl (ValidationError (e_message instance)))"

text \<open>The body of the \<^verbatim>\<open>try\<close> block (lines 18 to 41).\<close>

definition validate_try :: "(json \<Rightarrow> string) \<Rightarrow> json \<Rightarrow> (bool \<times> string) result" where
  "validate_try e_message data =
     rbind (jsonschema_validate e_message data geojson_schema) (\<lambda>_.
     rbind (py_get data ''type'' JNull) (\<lambda>t.
     rbind (if py_eq t (JStr ''FeatureCollection'')
            then rbind (py_contains ''features'' data) (\<lambda>c. Inr (\<not> c))
            else Inr False) (\<lambda>no_features.
       if no_features
       then Inr (False, ''FeatureCollection must have '' @ quoted ''features'' @ '' array'')
       else
     rbind (py_get data ''type'' JNull) (\<lambda>t'.
     rbind (if py_eq t' (JStr ''Feature'')
            then rbind (py_contains ''geometry'' data) (\<lambda>c. Inr (\<not> c))
            else Inr False) (\<lambda>no_geometry.
       if no_geometry
       then Inr (False, ''Feature must have '' @ quoted ''geometry'' @ '' property'')
       else Inr (True, ''Valid GeoJSON''))))))"

text \<open>
  The two handlers: the first takes a ValidationError, the second every other exception.
\<close>

definition validate_geojson :: "(json \<Rightarrow> string) \<Rightarrow> json \<Rightarrow> (bool \<times> string) result" where
  "validate_geojson e_message data =
     (case validate_try e_message data of
        Inr r \<Rightarrow> Inr r
      | Inl (ValidationError m) \<Rightarrow> Inr (False, ''Invalid GeoJSON: '' @ m)
      | Inl e \<Rightarrow> Inr (False, ''Error during validation: '' @ exn_str e))"

section \<open>The two sample documents (lines 139 to 179)\<close>

definition sample_geojson1 :: json where
  "sample_geojson1 =
     JObj [(''type'', JStr ''FeatureCollection''),
           (''features'', JArr [
              JObj [(''type'', JStr ''Feature''),
                    (''properties'', JObj [(''name'', JStr ''Point 1''), (''value'', JInt 42)]),
                    (''geometry'', JObj [(''type'', JStr ''Point''),
                                         (''coordinates'', JArr [JInt 0, JInt 0])])],
              JObj [(''type'', JStr ''Feature''),
                    (''properties'', JObj [(''name'', JStr ''Line 1''), (''length'', JFloat 10.5)]),
                    (''geometry'', JObj [(''type'', JStr ''LineString''),
                                         (''coordinates'', JArr [JArr [JInt 0, JInt 0],
                                                                 JArr [JInt 1, JInt 1]])])]])]"

definition sample_geojson2 :: json where
  "sample_geojson2 =
     JObj [(''type'', JStr ''FeatureCollection''),
           (''features'', JArr [
              JObj [(''type'', JStr ''Feature''),
                    (''properties'', JObj [(''name'', JStr ''Point A''), (''elevation'', JInt 100)]),
                    (''geometry'', JObj [(''type'', JStr ''Point''),
                                         (''coordinates'', JArr [JInt 2, JInt 2])])],
              JObj [(''type'', JStr ''Feature''),
                    (''properties'', JObj [(''name'', JStr ''Polygon A''), (''area'', JFloat 25)]),
                    (''geometry'', JObj [(''type'', JStr ''Polygon''),
                                         (''coordinates'', JArr [JArr [
                                            JArr [JInt 0, JInt 0], JArr [JInt 5, JInt 0],
                                            JArr [JInt 5, JInt 5], JArr [JInt 0, JInt 5],
                                            JArr [JInt 0, JInt 0]]])])]])]"

text \<open>A text for the library's message, where a concrete one is needed.\<close>

definition schema_violation :: "json \<Rightarrow> string" where
  "schema_violation instance = ''instance does not conform to the schema''"

text \<open>Small documents for the examples: a collection of given features and two Point features.\<close>

definition collection :: "json list \<Rightarrow> json" where
  "collection fs = JObj [(''type'', JStr ''FeatureCollection''), (''features'', JArr fs)]"

definition point_feature :: json where
  "point_feature =
     JObj [(''type'', JStr ''Feature''),
           (''geometry'', JObj [(''type'', JStr ''Point''), (''coordinates'', JArr [JInt 0, JInt 0])]),
           (''properties'', JObj [(''name'', JStr ''here'')])]"

definition bare_point_feature :: json where
  "bare_point_feature =
     JObj [(''type'', JStr ''Feature''), (''geometry'', JObj [(''type'', JStr ''Point'')])]"

section \<open>The vocabulary of the properties\<close>

text \<open>
  What the statements below say about a document, in terms of the document alone. A
  document is \<open>typed_as\<close> a name when it is an object whose \<^verbatim>\<open>type\<close> is that string.
\<close>

definition typed_as :: "json \<Rightarrow> string \<Rightarrow> bool" where
  "typed_as d s = (case d of JObj kvs \<Rightarrow> map_of kvs ''type'' = Some (JStr s) | _ \<Rightarrow> False)"

text \<open>The nine names of the schema's enumeration.\<close>

definition recognized_types :: "string list" where
  "recognized_types = [''FeatureCollection'', ''Feature'', ''Point'', ''LineString'', ''Polygon'',
                       ''MultiPoint'', ''MultiLineString'', ''MultiPolygon'', ''GeometryCollection'']"

text \<open>
  The sequence that both functions run their loop over: the value of \<^verbatim>\<open>features\<close> (the
  empty list when the key is absent), measured with \<^verbatim>\<open>len\<close> and then iterated.
\<close>

definition features_iter :: "json \<Rightarrow> json list result" where
  "features_iter d =
     rbind (py_get d ''features'' (JArr [])) (\<lambda>v. rbind (py_len v) (\<lambda>n. py_iter v))"

text \<open>
  The property keys a feature contributes: the keys of its \<^verbatim>\<open>properties\<close> when that is an
  object, none otherwise; and their union over a sequence of features.
\<close>

definition property_keys_of :: "json \<Rightarrow> string set" where
  "property_keys_of feature =
     (case feature of
        JObj kvs \<Rightarrow> (case map_of kvs ''properties'' of
                       Some (JObj props) \<Rightarrow> set (map fst props)
                     | _ \<Rightarrow> {})
      | _ \<Rightarrow> {})"

definition key_universe :: "json list \<Rightarrow> string set" where
  "key_universe features = (\<Union>feature \<in> set features. property_keys_of feature)"

text \<open>
  The values on which the key-collecting statement does not raise: an object whose
  \<^verbatim>\<open>properties\<close> is absent, an object or falsy; a list without the element
  \<^verbatim>\<open>"properties"\<close>; a string without that substring.
\<close>

fun collectable :: "json \<Rightarrow> bool" where
  "collectable (JObj kvs) =
     (case map_of kvs ''properties'' of
        None \<Rightarrow> True
      | Some (JObj props) \<Rightarrow> True
      | Some v \<Rightarrow> \<not> py_truthy v)"
| "collectable (JArr xs) = (JStr ''properties'' \<notin> set xs)"
| "collectable (JStr s) = (\<not> sublist ''properties'' s)"
| "collectable x = False"

text \<open>
  \<^verbatim>\<open>geometry.type\<close> of a feature, \<^verbatim>\<open>"Unknown"\<close> when missing at either level; the number of
  features of a sequence with a given geometry type; and the mapping from each type that
  occurs to that number.
\<close>

definition spec_geo_type :: "json \<Rightarrow> json" where
  "spec_geo_type x =
     (case x of
        JObj kvs \<Rightarrow>
          (case map_of kvs ''geometry'' of
             Some (JObj g) \<Rightarrow> (case map_of g ''type'' of Some t \<Rightarrow> t | None \<Rightarrow> JStr ''Unknown'')
           | _ \<Rightarrow> JStr ''Unknown'')
      | _ \<Rightarrow> JStr ''Unknown'')"

definition occurrences :: "json list \<Rightarrow> pykey \<Rightarrow> nat" where
  "occurrences fs k = length (filter (\<lambda>f. py_hash (spec_geo_type f) = Inr k) fs)"

definition tally_of :: "json list \<Rightarrow> (pykey \<rightharpoonup> nat)" where
  "tally_of fs = (\<lambda>k. if occurrences fs k = 0 then None else Some (occurrences fs k))"

text \<open>
  The features the loop of \<^verbatim>\<open>analyze_geojson\<close> gets through: objects whose \<^verbatim>\<open>geometry\<close> is
  absent or an object, whose geometry type can be a dict key, and whose \<^verbatim>\<open>properties\<close>
  can be read. \<open>analyzable\<close> extends this to whole documents.
\<close>

definition geometry_readable :: "json \<Rightarrow> bool" where
  "geometry_readable x =
     (case x of
        JObj kvs \<Rightarrow> (case map_of kvs ''geometry'' of None \<Rightarrow> True | Some (JObj g) \<Rightarrow> True | Some _ \<Rightarrow> False)
      | _ \<Rightarrow> False)"

fun hashable :: "json \<Rightarrow> bool" where
  "hashable (JArr _) = False"
| "hashable (JObj _) = False"
| "hashable _ = True"

definition analyzable_feature :: "json \<Rightarrow> bool" where
  "analyzable_feature f = (geometry_readable f \<and> hashable (spec_geo_type f) \<and> collectable f)"


text \<open>The count a tally holds for a key, zero when the key is not there.\<close>

definition cnt :: "(pykey \<rightharpoonup> nat) \<Rightarrow> pykey \<Rightarrow> nat" where
  "cnt m k = (case m k of None \<Rightarrow> 0 | Some c \<Rightarrow> c)"


text \<open>
  A field that the schema types but does not require: absent, or of the stated type; and the
  four such fields of the schema together.
\<close>

definition optional_field :: "(string \<times> json) list \<Rightarrow> string \<Rightarrow> jtype \<Rightarrow> bool" where
  "optional_field kvs k ty = (case map_of kvs k of None \<Rightarrow> True | Some v \<Rightarrow> has_type ty v)"

definition typed_fields :: "(string \<times> json) list \<Rightarrow> bool" where
  "typed_fields kvs =
     (optional_field kvs ''features'' TArray \<and> optional_field kvs ''geometry'' TObject \<and>
      optional_field kvs ''properties'' TObject \<and> optional_field kvs ''coordinates'' TArray)"

section \<open>Auxiliary facts\<close>

lemma rbind_Inl [simp]: "rbind (Inl e) f = Inl e"
  by (simp add: rbind_def)

lemma rbind_Inr [simp]: "rbind (Inr x) f = f x"
  by (simp add: rbind_def)

lemma rbind_eq_Inr: "rbind m f = Inr y \<longleftrightarrow> (\<exists>x. m = Inr x \<and> f x = Inr y)"
  by (cases m) simp_all

lemma py_eq_JStr [simp]: "py_eq x (JStr s) \<longleftrightarrow> x = JStr s"
  by (cases x) auto

lemma set_set_update [simp]: "set (set_update s ks) = set s \<union> set ks"
  by (auto simp: set_update_def)

lemma distinct_set_update [simp]: "distinct (set_update s ks) = distinct s"
  by (simp add: set_update_def)

lemma py_contains_JObj [simp]: "py_contains k (JObj kvs) = Inr (map_of kvs k \<noteq> None)"
  by (simp add: map_of_eq_None_iff)

declare py_contains.simps(1) [simp del]

lemma collect_keys_Inr:
  assumes "collect_keys ks x = Inr ks'"
  shows "set ks' = set ks \<union> property_keys_of x \<and> (distinct ks \<longrightarrow> distinct ks') \<and> collectable x"
proof (cases x)
  case (JObj kvs)
  show ?thesis
  proof (cases "map_of kvs ''properties''")
    case None
    with JObj assms show ?thesis
      by (auto simp: collect_keys_def property_keys_of_def)
  next
    case (Some p)
    with JObj assms show ?thesis
      by (cases p) (force simp: collect_keys_def property_keys_of_def no_attribute_def split: if_splits)+
  qed
next
  case (JArr xs)
  with assms show ?thesis
    by (auto simp: collect_keys_def property_keys_of_def list_ex_iff split: if_splits)
next
  case (JStr s)
  with assms show ?thesis
    by (auto simp: collect_keys_def property_keys_of_def split: if_splits)
qed (use assms in \<open>simp_all add: collect_keys_def\<close>)

lemma collect_keys_collectable:
  assumes "collectable x"
  shows "\<exists>ks'. collect_keys ks x = Inr ks'"
proof (cases x)
  case (JObj kvs)
  show ?thesis
  proof (cases "map_of kvs ''properties''")
    case None
    with JObj show ?thesis
      by (auto simp: collect_keys_def)
  next
    case (Some p)
    with JObj assms show ?thesis
      by (cases p) (auto simp: collect_keys_def)
  qed
next
  case (JArr xs)
  with assms show ?thesis
    by (auto simp: collect_keys_def list_ex_iff)
next
  case (JStr s)
  with assms show ?thesis
    by (auto simp: collect_keys_def)
qed (use assms in simp_all)

lemma keys_loop_Inr:
  "keys_loop ks fs = Inr ks' \<Longrightarrow>
     set ks' = set ks \<union> key_universe fs \<and> (distinct ks \<longrightarrow> distinct ks') \<and> list_all collectable fs"
proof (induction fs arbitrary: ks)
  case Nil
  then show ?case by (simp add: key_universe_def)
next
  case (Cons f fs)
  from Cons.prems obtain k1 where k1: "collect_keys ks f = Inr k1" and rest: "keys_loop k1 fs = Inr ks'"
    by (auto simp: rbind_eq_Inr)
  from collect_keys_Inr [OF k1] Cons.IH [OF rest] show ?case
    by (auto simp: key_universe_def)
qed

lemma keys_loop_collectable:
  "list_all collectable fs \<Longrightarrow> \<exists>ks'. keys_loop ks fs = Inr ks'"
proof (induction fs arbitrary: ks)
  case Nil
  then show ?case by simp
next
  case (Cons f fs)
  then obtain k1 where "collect_keys ks f = Inr k1"
    using collect_keys_collectable [of f ks] by auto
  with Cons show ?case by simp
qed

lemma py_get_Inr_iff:
  "py_get x k d = Inr v \<longleftrightarrow> (\<exists>kvs. x = JObj kvs \<and> v = (case map_of kvs k of None \<Rightarrow> d | Some w \<Rightarrow> w))"
  by (cases x) auto

lemma typed_as_get [simp]: "typed_as d s \<Longrightarrow> py_get d ''type'' dflt = Inr (JStr s)"
  by (cases d) (simp_all add: typed_as_def)

lemma py_len_iter: "py_iter v = Inr fs \<Longrightarrow> py_len v = Inr (length fs)"
  by (cases v) auto

lemma py_len_Inr_iter: "py_len v = Inr n \<Longrightarrow> \<exists>fs. py_iter v = Inr fs"
  by (cases v) auto

lemma geo_type_Inr:
  "rbind (py_get f ''geometry'' (JObj [])) (\<lambda>g. py_get g ''type'' (JStr ''Unknown'')) = Inr t
     \<longleftrightarrow> geometry_readable f \<and> t = spec_geo_type f"
proof (cases f)
  case (JObj kvs)
  show ?thesis
  proof (cases "map_of kvs ''geometry''")
    case None
    with JObj show ?thesis by (auto simp: geometry_readable_def spec_geo_type_def)
  next
    case (Some g)
    with JObj show ?thesis
      by (cases g) (auto simp: geometry_readable_def spec_geo_type_def split: option.splits)
  qed
qed (simp_all add: geometry_readable_def)

lemma py_hash_Inr: "(\<exists>k. py_hash t = Inr k) \<longleftrightarrow> hashable t"
  by (cases t) auto

lemma analyze_feature_Inr:
  assumes "analyze_feature (ft, ks) f = Inr (ft', ks')"
  shows "analyzable_feature f \<and>
         (\<exists>k. py_hash (spec_geo_type f) = Inr k \<and> ft' = ft(k \<mapsto> cnt ft k + 1)) \<and>
         set ks' = set ks \<union> property_keys_of f \<and> (distinct ks \<longrightarrow> distinct ks')"
proof -
  from assms obtain g t where g: "py_get f ''geometry'' (JObj []) = Inr g"
    and t: "py_get g ''type'' (JStr ''Unknown'') = Inr t"
    and ft': "tally ft t = Inr ft'" and ks': "collect_keys ks f = Inr ks'"
    by (auto simp: analyze_feature_def rbind_eq_Inr)
  from g t have gt: "geometry_readable f \<and> t = spec_geo_type f"
    using geo_type_Inr [of f t] by simp
  from ft' obtain k where k: "py_hash t = Inr k" and upd: "ft' = ft(k \<mapsto> cnt ft k + 1)"
    by (auto simp: tally_def rbind_eq_Inr cnt_def)
  from k have "hashable t" using py_hash_Inr by blast
  with gt k upd collect_keys_Inr [OF ks'] show ?thesis
    by (auto simp: analyzable_feature_def)
qed

lemma analyze_feature_analyzable:
  assumes "analyzable_feature f"
  shows "\<exists>st'. analyze_feature st f = Inr st'"
proof -
  from assms have gr: "geometry_readable f" and h: "hashable (spec_geo_type f)" and c: "collectable f"
    by (simp_all add: analyzable_feature_def)
  from gr have "rbind (py_get f ''geometry'' (JObj [])) (\<lambda>g. py_get g ''type'' (JStr ''Unknown''))
                  = Inr (spec_geo_type f)"
    using geo_type_Inr by blast
  then obtain g where g: "py_get f ''geometry'' (JObj []) = Inr g"
    and t: "py_get g ''type'' (JStr ''Unknown'') = Inr (spec_geo_type f)"
    by (auto simp: rbind_eq_Inr)
  from h obtain k where k: "py_hash (spec_geo_type f) = Inr k"
    using py_hash_Inr by blast
  from c obtain ks' where "collect_keys (snd st) f = Inr ks'"
    using collect_keys_collectable by blast
  with g t k show ?thesis
    by (simp add: analyze_feature_def tally_def)
qed

lemma occurrences_Cons:
  "occurrences (f # fs) k = (if py_hash (spec_geo_type f) = Inr k then 1 else 0) + occurrences fs k"
  by (simp add: occurrences_def)

lemma analyze_loop_Inr:
  "analyze_loop (ft, ks) fs = Inr (ft', ks') \<Longrightarrow>
     list_all analyzable_feature fs \<and>
     (\<forall>k. ft' k = (if occurrences fs k = 0 then ft k else Some (cnt ft k + occurrences fs k))) \<and>
     set ks' = set ks \<union> key_universe fs \<and> (distinct ks \<longrightarrow> distinct ks')"
proof (induction fs arbitrary: ft ks)
  case Nil
  then show ?case by (simp add: key_universe_def occurrences_def)
next
  case (Cons f fs)
  from Cons.prems obtain ft1 ks1 where step: "analyze_feature (ft, ks) f = Inr (ft1, ks1)"
    and rest: "analyze_loop (ft1, ks1) fs = Inr (ft', ks')"
    by (auto simp: rbind_eq_Inr)
  from analyze_feature_Inr [OF step] obtain k0 where
    a: "analyzable_feature f" and k0: "py_hash (spec_geo_type f) = Inr k0"
    and ft1: "ft1 = ft(k0 \<mapsto> cnt ft k0 + 1)"
    and ks1: "set ks1 = set ks \<union> property_keys_of f" "distinct ks \<longrightarrow> distinct ks1"
    by auto
  note ih = Cons.IH [OF rest]
  have "ft' k = (if occurrences (f # fs) k = 0 then ft k
                 else Some (cnt ft k + occurrences (f # fs) k))" for k
    using ih k0 ft1 by (auto simp: occurrences_Cons cnt_def)
  with a ih ks1 show ?case
    by (auto simp: key_universe_def)
qed

lemma analyze_loop_analyzable:
  "list_all analyzable_feature fs \<Longrightarrow> \<exists>st'. analyze_loop st fs = Inr st'"
proof (induction fs arbitrary: st)
  case Nil
  then show ?case by simp
next
  case (Cons f fs)
  then obtain st1 where "analyze_feature st f = Inr st1"
    using analyze_feature_analyzable [of f st] by auto
  with Cons show ?case by simp
qed

lemma analyze_loop_empty:
  assumes "analyze_loop (Map.empty, []) fs = Inr (ft, ks)"
  shows "ft = tally_of fs \<and> set ks = key_universe fs \<and> distinct ks"
proof -
  from analyze_loop_Inr [OF assms]
  have "\<forall>k. ft k = tally_of fs k" and "set ks = key_universe fs" and "distinct ks"
    by (auto simp: tally_of_def cnt_def)
  then show ?thesis by auto
qed

lemma analyze_collection:
  assumes "typed_as d ''FeatureCollection''"
  shows "analyze_geojson d =
           rbind (features_iter d) (\<lambda>fs.
           rbind (analyze_loop (Map.empty, []) fs) (\<lambda>st.
             Inr \<lparr>atype = JStr ''FeatureCollection'', feature_count = Some (length fs),
                  geometry_types = Some (fst st), geometry_type = None,
                  property_keys = Some (snd st)\<rparr>))"
proof (cases "py_get d ''features'' (JArr [])")
  case (Inl e)
  with assms show ?thesis
    by (simp add: analyze_geojson_def features_iter_def)
next
  case (Inr v)
  show ?thesis
  proof (cases "py_len v")
    case (Inl e)
    with assms Inr show ?thesis
      by (simp add: analyze_geojson_def features_iter_def)
  next
    case n: (Inr n)
    then obtain fs where fs: "py_iter v = Inr fs"
      using py_len_Inr_iter by blast
    with assms Inr n py_len_iter [OF fs] show ?thesis
      by (simp add: analyze_geojson_def features_iter_def)
  qed
qed

lemma analyze_feature_doc:
  assumes "typed_as d ''Feature''"
  shows "analyze_geojson d =
           rbind (rbind (py_get d ''geometry'' (JObj [])) (\<lambda>g. py_get g ''type'' (JStr ''Unknown''))) (\<lambda>geo_type.
           rbind (py_contains ''properties'' d) (\<lambda>present.
             if \<not> present
             then Inr \<lparr>atype = JStr ''Feature'', feature_count = None, geometry_types = None,
                       geometry_type = Some geo_type, property_keys = None\<rparr>
             else rbind (py_getitem d ''properties'') (\<lambda>props.
               if \<not> py_truthy props
               then Inr \<lparr>atype = JStr ''Feature'', feature_count = None, geometry_types = None,
                         geometry_type = Some geo_type, property_keys = None\<rparr>
               else rbind (py_keys props) (\<lambda>ks.
                 Inr \<lparr>atype = JStr ''Feature'', feature_count = None, geometry_types = None,
                      geometry_type = Some geo_type, property_keys = Some ks\<rparr>))))"
  using assms
  by (cases "py_get d ''geometry'' (JObj [])") (simp_all add: analyze_geojson_def Let_def cong: if_cong)

lemma analyze_other:
  assumes "py_get d ''type'' (JStr ''Unknown'') = Inr t"
      and "t \<noteq> JStr ''FeatureCollection''" and "t \<noteq> JStr ''Feature''"
  shows "analyze_geojson d =
           Inr \<lparr>atype = t, feature_count = None, geometry_types = None,
                geometry_type = (if t \<in> JStr ` set geometry_names then Some t else None),
                property_keys = None\<rparr>"
  using assms by (auto simp: analyze_geojson_def list_ex_iff Let_def)

lemma analyze_feature_doc_cases:
  assumes "typed_as (JObj kvs) ''Feature''"
  shows "(geometry_readable (JObj kvs) \<and> collectable (JObj kvs) \<longrightarrow>
            analyze_geojson (JObj kvs) =
              Inr \<lparr>atype = JStr ''Feature'', feature_count = None, geometry_types = None,
                   geometry_type = Some (spec_geo_type (JObj kvs)),
                   property_keys = (case map_of kvs ''properties'' of
                                      Some (JObj (kv # p)) \<Rightarrow> Some (map fst (kv # p))
                                    | _ \<Rightarrow> None)\<rparr>) \<and>
         (\<not> (geometry_readable (JObj kvs) \<and> collectable (JObj kvs)) \<longrightarrow>
            (\<exists>e. analyze_geojson (JObj kvs) = Inl e))"
proof (cases "geometry_readable (JObj kvs)")
  case False
  then have "\<exists>e. rbind (py_get (JObj kvs) ''geometry'' (JObj [])) (\<lambda>g. py_get g ''type'' (JStr ''Unknown'')) = Inl e"
    using geo_type_Inr [of "JObj kvs"]
    by (metis sumE)
  with False show ?thesis
    unfolding analyze_feature_doc [OF assms] by auto
next
  case True
  then have g: "rbind (py_get (JObj kvs) ''geometry'' (JObj [])) (\<lambda>g. py_get g ''type'' (JStr ''Unknown''))
                 = Inr (spec_geo_type (JObj kvs))"
    using geo_type_Inr by blast
  show ?thesis
  proof (cases "map_of kvs ''properties''")
    case None
    with True show ?thesis
      unfolding analyze_feature_doc [OF assms] g by simp
  next
    case (Some p)
    with True show ?thesis
      unfolding analyze_feature_doc [OF assms] g
      by (cases p) (auto simp: no_attribute_def split: list.splits)
  qed
qed

lemma analyze_collection_cases:
  assumes "typed_as d ''FeatureCollection''"
  shows "(\<forall>r. analyze_geojson d = Inr r \<longleftrightarrow>
            (\<exists>fs ks. features_iter d = Inr fs \<and> list_all analyzable_feature fs \<and>
                 analyze_loop (Map.empty, []) fs = Inr (tally_of fs, ks) \<and>
                 set ks = key_universe fs \<and> distinct ks \<and>
                 r = \<lparr>atype = JStr ''FeatureCollection'', feature_count = Some (length fs),
                      geometry_types = Some (tally_of fs), geometry_type = None,
                      property_keys = Some ks\<rparr>))"
proof (intro allI iffI)
  fix r
  assume "analyze_geojson d = Inr r"
  then obtain fs ft ks where fs: "features_iter d = Inr fs"
    and loop: "analyze_loop (Map.empty, []) fs = Inr (ft, ks)"
    and r: "r = \<lparr>atype = JStr ''FeatureCollection'', feature_count = Some (length fs),
                  geometry_types = Some ft, geometry_type = None, property_keys = Some ks\<rparr>"
    unfolding analyze_collection [OF assms] by (auto simp: rbind_eq_Inr)
  from analyze_loop_empty [OF loop] analyze_loop_Inr [OF loop] fs loop r
  show "\<exists>fs ks. features_iter d = Inr fs \<and> list_all analyzable_feature fs \<and>
                 analyze_loop (Map.empty, []) fs = Inr (tally_of fs, ks) \<and>
                 set ks = key_universe fs \<and> distinct ks \<and>
                 r = \<lparr>atype = JStr ''FeatureCollection'', feature_count = Some (length fs),
                      geometry_types = Some (tally_of fs), geometry_type = None,
                      property_keys = Some ks\<rparr>"
    by auto
next
  fix r
  assume "\<exists>fs ks. features_iter d = Inr fs \<and> list_all analyzable_feature fs \<and>
                 analyze_loop (Map.empty, []) fs = Inr (tally_of fs, ks) \<and>
                 set ks = key_universe fs \<and> distinct ks \<and>
                 r = \<lparr>atype = JStr ''FeatureCollection'', feature_count = Some (length fs),
                      geometry_types = Some (tally_of fs), geometry_type = None,
                      property_keys = Some ks\<rparr>"
  then show "analyze_geojson d = Inr r"
    unfolding analyze_collection [OF assms] by auto
qed

lemma analyze_collection_returns:
  assumes "typed_as d ''FeatureCollection''" and "features_iter d = Inr fs"
      and "list_all analyzable_feature fs"
  shows "\<exists>ks. analyze_geojson d =
                 Inr \<lparr>atype = JStr ''FeatureCollection'', feature_count = Some (length fs),
                      geometry_types = Some (tally_of fs), geometry_type = None,
                      property_keys = Some ks\<rparr> \<and> set ks = key_universe fs \<and> distinct ks"
proof -
  from assms(3) obtain ft ks where loop: "analyze_loop (Map.empty, []) fs = Inr (ft, ks)"
    using analyze_loop_analyzable [of fs "(Map.empty, [])"] by auto
  from analyze_loop_empty [OF loop] loop assms(2) show ?thesis
    unfolding analyze_collection [OF assms(1)] by auto
qed


lemma prop_conforms_plain: "prop_conforms \<lparr>p_type = ty, p_enum = None\<rparr> x = has_type ty x"
  by (simp add: prop_conforms_def)

lemma conforms_geojson_schema:
  "conforms geojson_schema d \<longleftrightarrow>
     (\<exists>kvs. d = JObj kvs \<and> (\<exists>s \<in> set recognized_types. map_of kvs ''type'' = Some (JStr s)) \<and>
            typed_fields kvs)"
proof (cases d)
  case (JObj kvs)
  have split: "conforms geojson_schema (JObj kvs) \<longleftrightarrow>
        (''type'' \<in> fst ` set kvs \<and>
         (case map_of kvs ''type'' of None \<Rightarrow> True
          | Some v \<Rightarrow> prop_conforms \<lparr>p_type = TString, p_enum = Some recognized_types\<rparr> v)) \<and>
        typed_fields kvs"
    by (simp add: conforms_def geojson_schema_def typed_fields_def optional_field_def
        prop_conforms_plain recognized_types_def conj_ac cong: option.case_cong)
  have type: "(''type'' \<in> fst ` set kvs \<and>
         (case map_of kvs ''type'' of None \<Rightarrow> True
          | Some v \<Rightarrow> prop_conforms \<lparr>p_type = TString, p_enum = Some recognized_types\<rparr> v))
        \<longleftrightarrow> (\<exists>s \<in> set recognized_types. map_of kvs ''type'' = Some (JStr s))"
  proof (cases "map_of kvs ''type''")
    case None
    then have "''type'' \<notin> fst ` set kvs"
      by (metis map_of_eq_None_iff)
    with None show ?thesis by simp
  next
    case (Some v)
    then have "''type'' \<in> fst ` set kvs"
      by (metis map_of_eq_None_iff option.distinct(1))
    with Some show ?thesis
      by (cases v) (auto simp: prop_conforms_def list_ex_iff)
  qed
  from JObj show ?thesis
    unfolding JObj split type by simp
qed (simp_all add: conforms_def geojson_schema_def)

lemma validate_try_nonconforming:
  "\<not> conforms geojson_schema d \<Longrightarrow> validate_try em d = Inl (ValidationError (em d))"
  by (simp add: validate_try_def jsonschema_validate_def)

lemma validate_try_conforming:
  assumes "conforms geojson_schema (JObj kvs)"
  shows "validate_try em (JObj kvs) =
           Inr (if map_of kvs ''type'' = Some (JStr ''FeatureCollection'') \<and> map_of kvs ''features'' = None
                then (False, ''FeatureCollection must have '' @ quoted ''features'' @ '' array'')
                else if map_of kvs ''type'' = Some (JStr ''Feature'') \<and> map_of kvs ''geometry'' = None
                then (False, ''Feature must have '' @ quoted ''geometry'' @ '' property'')
                else (True, ''Valid GeoJSON''))"
proof -
  from assms obtain s where "map_of kvs ''type'' = Some (JStr s)"
    unfolding conforms_geojson_schema by auto
  with assms show ?thesis
    by (auto simp: validate_try_def jsonschema_validate_def)
qed

lemma validate_geojson_nonconforming:
  "\<not> conforms geojson_schema d \<Longrightarrow> validate_geojson em d = Inr (False, ''Invalid GeoJSON: '' @ em d)"
  by (simp add: validate_geojson_def validate_try_nonconforming)

lemma validate_geojson_conforming:
  assumes "conforms geojson_schema (JObj kvs)"
  shows "validate_geojson em (JObj kvs) =
           Inr (if map_of kvs ''type'' = Some (JStr ''FeatureCollection'') \<and> map_of kvs ''features'' = None
                then (False, ''FeatureCollection must have '' @ quoted ''features'' @ '' array'')
                else if map_of kvs ''type'' = Some (JStr ''Feature'') \<and> map_of kvs ''geometry'' = None
                then (False, ''Feature must have '' @ quoted ''geometry'' @ '' property'')
                else (True, ''Valid GeoJSON''))"
  by (simp add: validate_geojson_def validate_try_conforming [OF assms])


lemma typed_as_obj: "typed_as d s \<Longrightarrow> \<exists>kvs. d = JObj kvs \<and> map_of kvs ''type'' = Some (JStr s)"
  by (cases d) (simp_all add: typed_as_def)

lemma nonempty_object_case:
  "(case m of Some (JObj (kv # p)) \<Rightarrow> Some (f kv p) | _ \<Rightarrow> None) \<noteq> None
     \<longleftrightarrow> (\<exists>kv p. m = Some (JObj (kv # p)))"
  by (auto split: option.splits json.splits list.splits)


lemma features_iter_Inr:
  "features_iter d = Inr fs \<longleftrightarrow>
     (\<exists>v. py_get d ''features'' (JArr []) = Inr v \<and> py_len v = Inr (length fs) \<and> py_iter v = Inr fs)"
proof -
  have "py_len v = Inr (length fs)" if "py_iter v = Inr fs" for v
    using that by (rule py_len_iter)
  then show ?thesis
    by (auto simp: features_iter_def rbind_eq_Inr)
qed

lemma compare_collections_iff:
  assumes "typed_as a ''FeatureCollection''" and "typed_as b ''FeatureCollection''"
  shows "compare_geojson a b = Inr r \<longleftrightarrow>
           (\<exists>fs1 fs2 keys1 keys2.
              features_iter a = Inr fs1 \<and> features_iter b = Inr fs2 \<and>
              keys_loop [] fs1 = Inr keys1 \<and> keys_loop [] fs2 = Inr keys2 \<and>
              r = \<lparr>different_types = False,
                   feature_count_1 = Some (length fs1), feature_count_2 = Some (length fs2),
                   feature_count_diff = Some (int (length fs1) - int (length fs2)),
                   unique_keys_1 = Some (filter (\<lambda>k. k \<notin> set keys2) keys1),
                   unique_keys_2 = Some (filter (\<lambda>k. k \<notin> set keys1) keys2),
                   common_keys = Some (filter (\<lambda>k. k \<in> set keys2) keys1)\<rparr>)"
proof
  assume "compare_geojson a b = Inr r"
  with assms obtain v1 v2 n1 n2 fs1 fs2 keys1 keys2 where
    v: "py_get a ''features'' (JArr []) = Inr v1" "py_get b ''features'' (JArr []) = Inr v2"
    and n: "py_len v1 = Inr n1" "py_len v2 = Inr n2"
    and fs: "py_iter v1 = Inr fs1" "py_iter v2 = Inr fs2"
    and k: "keys_loop [] fs1 = Inr keys1" "keys_loop [] fs2 = Inr keys2"
    and r: "r = \<lparr>different_types = False,
                  feature_count_1 = Some n1, feature_count_2 = Some n2,
                  feature_count_diff = Some (int n1 - int n2),
                  unique_keys_1 = Some (filter (\<lambda>k. k \<notin> set keys2) keys1),
                  unique_keys_2 = Some (filter (\<lambda>k. k \<notin> set keys1) keys2),
                  common_keys = Some (filter (\<lambda>k. k \<in> set keys2) keys1)\<rparr>"
    by (auto simp: compare_geojson_def Let_def rbind_eq_Inr)
  from n fs have "n1 = length fs1" "n2 = length fs2"
    using py_len_iter by fastforce+
  with v n fs k r show "\<exists>fs1 fs2 keys1 keys2.
              features_iter a = Inr fs1 \<and> features_iter b = Inr fs2 \<and>
              keys_loop [] fs1 = Inr keys1 \<and> keys_loop [] fs2 = Inr keys2 \<and>
              r = \<lparr>different_types = False,
                   feature_count_1 = Some (length fs1), feature_count_2 = Some (length fs2),
                   feature_count_diff = Some (int (length fs1) - int (length fs2)),
                   unique_keys_1 = Some (filter (\<lambda>k. k \<notin> set keys2) keys1),
                   unique_keys_2 = Some (filter (\<lambda>k. k \<notin> set keys1) keys2),
                   common_keys = Some (filter (\<lambda>k. k \<in> set keys2) keys1)\<rparr>"
    unfolding features_iter_Inr by blast
next
  assume "\<exists>fs1 fs2 keys1 keys2.
              features_iter a = Inr fs1 \<and> features_iter b = Inr fs2 \<and>
              keys_loop [] fs1 = Inr keys1 \<and> keys_loop [] fs2 = Inr keys2 \<and>
              r = \<lparr>different_types = False,
                   feature_count_1 = Some (length fs1), feature_count_2 = Some (length fs2),
                   feature_count_diff = Some (int (length fs1) - int (length fs2)),
                   unique_keys_1 = Some (filter (\<lambda>k. k \<notin> set keys2) keys1),
                   unique_keys_2 = Some (filter (\<lambda>k. k \<notin> set keys1) keys2),
                   common_keys = Some (filter (\<lambda>k. k \<in> set keys2) keys1)\<rparr>"
  with assms show "compare_geojson a b = Inr r"
    unfolding features_iter_Inr
    by (auto simp: compare_geojson_def Let_def)
qed

lemma compare_returns_iff:
  assumes "typed_as a ''FeatureCollection''" and "typed_as b ''FeatureCollection''"
  shows "(\<exists>r. compare_geojson a b = Inr r) \<longleftrightarrow>
           (\<exists>fs1 fs2. features_iter a = Inr fs1 \<and> features_iter b = Inr fs2 \<and>
                      list_all collectable fs1 \<and> list_all collectable fs2)"
proof
  assume "\<exists>r. compare_geojson a b = Inr r"
  then obtain fs1 fs2 k1 k2 where "features_iter a = Inr fs1" "features_iter b = Inr fs2"
    "keys_loop [] fs1 = Inr k1" "keys_loop [] fs2 = Inr k2"
    unfolding compare_collections_iff [OF assms] by blast
  then show "\<exists>fs1 fs2. features_iter a = Inr fs1 \<and> features_iter b = Inr fs2 \<and>
                      list_all collectable fs1 \<and> list_all collectable fs2"
    using keys_loop_Inr by blast
next
  assume "\<exists>fs1 fs2. features_iter a = Inr fs1 \<and> features_iter b = Inr fs2 \<and>
                      list_all collectable fs1 \<and> list_all collectable fs2"
  then obtain fs1 fs2 where f: "features_iter a = Inr fs1" "features_iter b = Inr fs2"
    and c: "list_all collectable fs1" "list_all collectable fs2"
    by blast
  from c obtain k1 k2 where "keys_loop [] fs1 = Inr k1" "keys_loop [] fs2 = Inr k2"
    using keys_loop_collectable by blast
  with f show "\<exists>r. compare_geojson a b = Inr r"
    unfolding compare_collections_iff [OF assms] by blast
qed


lemma typed_as_collection [simp]: "typed_as (collection fs) ''FeatureCollection''"
  by (simp add: collection_def typed_as_def)

lemma features_iter_collection [simp]: "features_iter (collection fs) = Inr fs"
  by (simp add: collection_def features_iter_def)

lemma analyzable_point_feature [simp]: "analyzable_feature point_feature"
  by (simp add: analyzable_feature_def point_feature_def geometry_readable_def spec_geo_type_def)

lemma analyzable_bare_point_feature [simp]: "analyzable_feature bare_point_feature"
  by (simp add: analyzable_feature_def bare_point_feature_def geometry_readable_def spec_geo_type_def)

lemma tally_two_points:
  "tally_of [point_feature, bare_point_feature] = [KStr ''Point'' \<mapsto> 2]"
  by (rule ext)
    (simp add: tally_of_def occurrences_def spec_geo_type_def point_feature_def
      bare_point_feature_def)

lemma compare_samples:
  "compare_geojson sample_geojson1 sample_geojson2 =
     Inr \<lparr>different_types = False, feature_count_1 = Some 2, feature_count_2 = Some 2,
          feature_count_diff = Some 0,
          unique_keys_1 = Some [''length'', ''value''],
          unique_keys_2 = Some [''area'', ''elevation''],
          common_keys = Some [''name'']\<rparr>"
  by (simp add: compare_geojson_def sample_geojson1_def sample_geojson2_def collect_keys_def
      set_update_def List.union_def List.insert_def)

section \<open>The claims\<close>




text \<open>
  Claim C2. An object that has no \<^verbatim>\<open>type\<close>, or whose \<^verbatim>\<open>type\<close> is none of the nine
  recognized names, is reported invalid by \<^verbatim>\<open>validate_geojson\<close>.
\<close>
theorem validate_rejects_unrecognized_type:
  assumes "map_of kvs ''type'' = None \<or> (\<forall>s \<in> set recognized_types. map_of kvs ''type'' \<noteq> Some (JStr s))"
  shows "\<exists>m. validate_geojson e_message (JObj kvs) = Inr (False, m)"
proof -
  from assms have "\<not> conforms geojson_schema (JObj kvs)"
    unfolding conforms_geojson_schema by auto
  then show ?thesis
    by (simp add: validate_geojson_nonconforming)
qed

text \<open>The statement at an object of the unrecognized type \<^verbatim>\<open>Circle\<close>.\<close>
theorem validate_rejects_unrecognized_type_witness:
  "(map_of [(''type'', JStr ''Circle'')] ''type'' = None \<or>
    (\<forall>s \<in> set recognized_types. map_of [(''type'', JStr ''Circle'')] ''type'' \<noteq> Some (JStr s))) \<and>
   (\<exists>m. validate_geojson schema_violation (JObj [(''type'', JStr ''Circle'')]) = Inr (False, m))"
  using validate_rejects_unrecognized_type [of "[(''type'', JStr ''Circle'')]" schema_violation]
  by (simp add: recognized_types_def)

text \<open>
  Claim C3, as the code has it. For an object of type \<^verbatim>\<open>FeatureCollection\<close> the verdict of
  \<^verbatim>\<open>validate_geojson\<close> is true exactly when \<^verbatim>\<open>features\<close> is present and a list (whatever
  its elements) and the other fields the schema types are absent or of their type; for an
  object of type \<^verbatim>\<open>Feature\<close>, exactly when \<^verbatim>\<open>geometry\<close> is present and an object and the
  other typed fields are absent or of their type. In particular the verdict is false when
  \<^verbatim>\<open>features\<close>, respectively \<^verbatim>\<open>geometry\<close>, is absent.
\<close>
theorem validate_collection_and_feature:
  "(map_of kvs ''type'' = Some (JStr ''FeatureCollection'') \<longrightarrow>
      (\<exists>m. validate_geojson e_message (JObj kvs) =
              Inr ((\<exists>fs. map_of kvs ''features'' = Some (JArr fs)) \<and> typed_fields kvs, m))) \<and>
   (map_of kvs ''type'' = Some (JStr ''Feature'') \<longrightarrow>
      (\<exists>m. validate_geojson e_message (JObj kvs) =
              Inr ((\<exists>g. map_of kvs ''geometry'' = Some (JObj g)) \<and> typed_fields kvs, m)))"
proof (cases "conforms geojson_schema (JObj kvs)")
  case True
  then have tf: "typed_fields kvs"
    unfolding conforms_geojson_schema by simp
  then have "map_of kvs ''features'' \<noteq> None \<longleftrightarrow> (\<exists>fs. map_of kvs ''features'' = Some (JArr fs))"
    and "map_of kvs ''geometry'' \<noteq> None \<longleftrightarrow> (\<exists>g. map_of kvs ''geometry'' = Some (JObj g))"
    by (auto simp: typed_fields_def optional_field_def split: option.splits json.splits)
  with tf show ?thesis
    unfolding validate_geojson_conforming [OF True] by auto
next
  case False
  then have "\<not> typed_fields kvs" if "\<exists>s \<in> set recognized_types. map_of kvs ''type'' = Some (JStr s)"
    using that unfolding conforms_geojson_schema by simp
  then have "\<not> typed_fields kvs" if "map_of kvs ''type'' = Some (JStr ''FeatureCollection'') \<or>
       map_of kvs ''type'' = Some (JStr ''Feature'')"
    using that by (auto simp: recognized_types_def)
  then show ?thesis
    unfolding validate_geojson_nonconforming [OF False] by auto
qed

text \<open>The statement at a collection with an empty list of features, which is valid.\<close>
theorem validate_collection_and_feature_witness:
  "map_of [(''type'', JStr ''FeatureCollection''), (''features'', JArr [])] ''type''
     = Some (JStr ''FeatureCollection'') \<and>
   (\<exists>m. validate_geojson schema_violation
          (JObj [(''type'', JStr ''FeatureCollection''), (''features'', JArr [])]) = Inr (True, m))"
  using validate_collection_and_feature
    [of "[(''type'', JStr ''FeatureCollection''), (''features'', JArr [])]" schema_violation]
  by (simp add: typed_fields_def optional_field_def)

text \<open>
  Claim C3 as the specification has it fails on a collection whose \<^verbatim>\<open>features\<close> is present
  but not a list: the schema types the field as an array, and the document is invalid.
\<close>
theorem validate_rejects_non_array_features:
  "validate_geojson schema_violation
     (JObj [(''type'', JStr ''FeatureCollection''), (''features'', JInt 5)])
   = Inr (False, ''Invalid GeoJSON: '' @
           schema_violation (JObj [(''type'', JStr ''FeatureCollection''), (''features'', JInt 5)]))"
  by (simp add: validate_geojson_def validate_try_def jsonschema_validate_def conforms_def
      geojson_schema_def prop_conforms_def)

text \<open>
  Claim C4. \<^verbatim>\<open>validate_geojson\<close> returns a verdict and a non-empty message on every value,
  and whenever the body of its \<^verbatim>\<open>try\<close> block raises, the verdict is false.
\<close>
theorem validate_never_raises:
  "(\<exists>b m. validate_geojson e_message d = Inr (b, m) \<and> m \<noteq> []) \<and>
   (\<forall>e. validate_try e_message d = Inl e \<longrightarrow>
        (\<exists>m. validate_geojson e_message d = Inr (False, m) \<and> m \<noteq> []))"
proof (cases "validate_try e_message d")
  case (Inl e)
  then show ?thesis
    by (cases e) (auto simp: validate_geojson_def)
next
  case (Inr r)
  then have "r = (False, ''FeatureCollection must have '' @ quoted ''features'' @ '' array'') \<or>
             r = (False, ''Feature must have '' @ quoted ''geometry'' @ '' property'') \<or>
             r = (True, ''Valid GeoJSON'')"
    by (auto simp: validate_try_def rbind_eq_Inr split: if_splits)
  with Inr show ?thesis
    by (auto simp: validate_geojson_def)
qed

text \<open>The statement at the number 3, on which the schema check raises.\<close>
theorem validate_never_raises_witness:
  "validate_try schema_violation (JInt 3) = Inl (ValidationError (schema_violation (JInt 3))) \<and>
   (\<exists>m. validate_geojson schema_violation (JInt 3) = Inr (False, m) \<and> m \<noteq> [])"
  using validate_never_raises [of schema_violation "JInt 3"]
  by (simp add: validate_try_def jsonschema_validate_def conforms_def geojson_schema_def)

text \<open>
  Claim C5, as the code has it. For an object of type \<^verbatim>\<open>FeatureCollection\<close> whose features
  the loop can all read, \<^verbatim>\<open>analyze_geojson\<close> returns a report whose \<^verbatim>\<open>feature_count\<close> is
  the length of the feature sequence (empty when \<^verbatim>\<open>features\<close> is absent) and whose
  \<^verbatim>\<open>geometry_types\<close> maps each geometry type that occurs, \<^verbatim>\<open>"Unknown"\<close> standing for a
  missing one, to the number of features that have it.
\<close>
theorem analyze_collection_counts:
  assumes "typed_as d ''FeatureCollection''" and "features_iter d = Inr fs"
      and "list_all analyzable_feature fs"
  shows "\<exists>r. analyze_geojson d = Inr r \<and> feature_count r = Some (length fs) \<and>
             geometry_types r = Some (tally_of fs)"
  using analyze_collection_returns [OF assms] by auto

text \<open>
  The statement at two features whose geometry type is \<^verbatim>\<open>Point\<close>: the count is 2 and the
  tally maps \<^verbatim>\<open>Point\<close> to 2.
\<close>
theorem analyze_two_points:
  "typed_as (collection [point_feature, bare_point_feature]) ''FeatureCollection'' \<and>
   features_iter (collection [point_feature, bare_point_feature])
     = Inr [point_feature, bare_point_feature] \<and>
   list_all analyzable_feature [point_feature, bare_point_feature] \<and>
   (\<exists>r. analyze_geojson (collection [point_feature, bare_point_feature]) = Inr r \<and>
        feature_count r = Some 2 \<and> geometry_types r = Some [KStr ''Point'' \<mapsto> 2])"
  using analyze_collection_counts
    [of "collection [point_feature, bare_point_feature]" "[point_feature, bare_point_feature]"]
  by (simp add: tally_two_points numeral_2_eq_2)

text \<open>
  Claim C5 as the specification has it fails on a collection of two Point features of
  which the second has a list for \<^verbatim>\<open>properties\<close>: line 70 calls \<^verbatim>\<open>keys\<close> on the list, and no
  report is returned.
\<close>
theorem analyze_raises_on_list_properties:
  "analyze_geojson
     (JObj [(''type'', JStr ''FeatureCollection''),
            (''features'', JArr [
               JObj [(''geometry'', JObj [(''type'', JStr ''Point'')])],
               JObj [(''geometry'', JObj [(''type'', JStr ''Point'')]),
                     (''properties'', JArr [JStr ''name''])]])])
   = Inl (no_attribute (JArr [JStr ''name'']) ''keys'')"
  by (simp add: analyze_geojson_def analyze_feature_def tally_def collect_keys_def)

text \<open>
  Claim C6, as the code has it. A report of \<^verbatim>\<open>analyze_geojson\<close> has the key
  \<^verbatim>\<open>property_keys\<close> exactly when the document is a FeatureCollection (whatever its
  features carry), or is a Feature with a non-empty \<^verbatim>\<open>properties\<close> object.
\<close>
theorem property_keys_presence:
  assumes "analyze_geojson d = Inr r"
  shows "property_keys r \<noteq> None \<longleftrightarrow>
           typed_as d ''FeatureCollection'' \<or>
           (typed_as d ''Feature'' \<and>
            (\<exists>kvs kv p. d = JObj kvs \<and> map_of kvs ''properties'' = Some (JObj (kv # p))))"
proof -
  from assms obtain kvs where d: "d = JObj kvs"
    by (cases d) (simp_all add: analyze_geojson_def)
  consider (fc) "typed_as d ''FeatureCollection''"
    | (feature) "typed_as d ''Feature''"
    | (other) "\<not> typed_as d ''FeatureCollection''" "\<not> typed_as d ''Feature''"
    by blast
  then show ?thesis
  proof cases
    case fc
    from analyze_collection_cases [OF fc] assms obtain fs ks where
      "r = \<lparr>atype = JStr ''FeatureCollection'', feature_count = Some (length fs),
            geometry_types = Some (tally_of fs), geometry_type = None,
            property_keys = Some ks\<rparr>"
      by blast
    then have "property_keys r = Some ks" by simp
    with fc show ?thesis by simp
  next
    case feature
    then have nfc: "\<not> typed_as d ''FeatureCollection''"
      by (auto simp: typed_as_def d)
    from feature d have "typed_as (JObj kvs) ''Feature''" by simp
    from analyze_feature_doc_cases [OF this] assms d
    have "property_keys r = (case map_of kvs ''properties'' of
                               Some (JObj (kv # p)) \<Rightarrow> Some (map fst (kv # p))
                             | _ \<Rightarrow> None)"
      by (cases "geometry_readable (JObj kvs) \<and> collectable (JObj kvs)") auto
    then have "property_keys r \<noteq> None \<longleftrightarrow>
                 (\<exists>kv p. map_of kvs ''properties'' = Some (JObj (kv # p)))"
      by (simp only: nonempty_object_case)
    with feature nfc d show ?thesis by simp
  next
    case other
    define t where "t = (case map_of kvs ''type'' of None \<Rightarrow> JStr ''Unknown'' | Some t \<Rightarrow> t)"
    have get: "py_get d ''type'' (JStr ''Unknown'') = Inr t"
      by (simp add: d t_def)
    from other have "t \<noteq> JStr ''FeatureCollection''" "t \<noteq> JStr ''Feature''"
      by (auto simp: typed_as_def d t_def split: option.splits)
    from analyze_other [OF get this] other assms show ?thesis
      by auto
  qed
qed

text \<open>The statement at a bare Point, whose report has no \<^verbatim>\<open>property_keys\<close>.\<close>
theorem property_keys_presence_witness:
  "analyze_geojson (JObj [(''type'', JStr ''Point'')])
     = Inr \<lparr>atype = JStr ''Point'', feature_count = None, geometry_types = None,
            geometry_type = Some (JStr ''Point''), property_keys = None\<rparr> \<and>
   \<not> typed_as (JObj [(''type'', JStr ''Point'')]) ''FeatureCollection'' \<and>
   \<not> typed_as (JObj [(''type'', JStr ''Point'')]) ''Feature''"
  using property_keys_presence [of "JObj [(''type'', JStr ''Point'')]"
      "\<lparr>atype = JStr ''Point'', feature_count = None, geometry_types = None,
        geometry_type = Some (JStr ''Point''), property_keys = None\<rparr>"]
  by (simp add: analyze_geojson_def geometry_names_def typed_as_def)

text \<open>
  Claim C6 as the specification has it fails on a collection without features: the report
  has \<^verbatim>\<open>property_keys\<close>, set to the empty list.
\<close>
theorem property_keys_present_when_empty:
  "map_sum id property_keys
     (analyze_geojson (JObj [(''type'', JStr ''FeatureCollection''), (''features'', JArr [])]))
   = Inr (Some [])"
  by (simp add: analyze_geojson_def)



text \<open>
  Claim C8, as the code has it. For a valid FeatureCollection whose features can all be
  read, \<^verbatim>\<open>compare_geojson\<close> of the document with itself reports equal types, a count
  difference of zero, no unique keys on either side, and as common keys the property keys
  of the document's features, each once.
\<close>
theorem compare_with_itself:
  assumes "validate_geojson e_message x = Inr (True, m)"
      and "typed_as x ''FeatureCollection''" and "features_iter x = Inr fs"
      and "list_all collectable fs"
  shows "\<exists>c. compare_geojson x x =
               Inr \<lparr>different_types = False,
                    feature_count_1 = Some (length fs), feature_count_2 = Some (length fs),
                    feature_count_diff = Some 0,
                    unique_keys_1 = Some [], unique_keys_2 = Some [],
                    common_keys = Some c\<rparr> \<and>
             set c = key_universe fs \<and> distinct c"
proof -
  from assms(4) obtain ks where ks: "keys_loop [] fs = Inr ks"
    using keys_loop_collectable by blast
  from keys_loop_Inr [OF ks] have "set ks = key_universe fs" and "distinct ks"
    by simp_all
  moreover have "filter (\<lambda>k. k \<notin> set ks) ks = []" and "filter (\<lambda>k. k \<in> set ks) ks = ks"
    by (simp_all add: filter_empty_conv)
  moreover have "compare_geojson x x =
      Inr \<lparr>different_types = False,
           feature_count_1 = Some (length fs), feature_count_2 = Some (length fs),
           feature_count_diff = Some (int (length fs) - int (length fs)),
           unique_keys_1 = Some (filter (\<lambda>k. k \<notin> set ks) ks),
           unique_keys_2 = Some (filter (\<lambda>k. k \<notin> set ks) ks),
           common_keys = Some (filter (\<lambda>k. k \<in> set ks) ks)\<rparr>"
    unfolding compare_collections_iff [OF assms(2) assms(2)] using assms(3) ks by blast
  ultimately show ?thesis by simp
qed

text \<open>The statement at a collection of two Point features.\<close>
theorem compare_with_itself_witness:
  "validate_geojson schema_violation (collection [point_feature, bare_point_feature])
     = Inr (True, ''Valid GeoJSON'') \<and>
   typed_as (collection [point_feature, bare_point_feature]) ''FeatureCollection'' \<and>
   features_iter (collection [point_feature, bare_point_feature])
     = Inr [point_feature, bare_point_feature] \<and>
   list_all collectable [point_feature, bare_point_feature] \<and>
   (\<exists>c. compare_geojson (collection [point_feature, bare_point_feature])
                         (collection [point_feature, bare_point_feature]) =
          Inr \<lparr>different_types = False, feature_count_1 = Some 2, feature_count_2 = Some 2,
               feature_count_diff = Some 0, unique_keys_1 = Some [], unique_keys_2 = Some [],
               common_keys = Some c\<rparr> \<and>
        set c = key_universe [point_feature, bare_point_feature] \<and> distinct c)"
proof -
  have v: "validate_geojson schema_violation (collection [point_feature, bare_point_feature])
             = Inr (True, ''Valid GeoJSON'')"
    by (simp add: collection_def validate_geojson_def validate_try_def jsonschema_validate_def
        conforms_def geojson_schema_def prop_conforms_def)
  have c: "list_all collectable [point_feature, bare_point_feature]"
    by (simp add: point_feature_def bare_point_feature_def)
  from compare_with_itself [OF v typed_as_collection features_iter_collection c] v c
  show ?thesis
    by (simp add: numeral_2_eq_2)
qed

text \<open>
  Claim C8 as the specification has it fails on a collection that \<^verbatim>\<open>validate_geojson\<close>
  accepts and in which a feature has a string for \<^verbatim>\<open>properties\<close>: line 113 calls \<^verbatim>\<open>keys\<close>
  on the string.
\<close>
theorem compare_raises_on_valid_collection:
  "validate_geojson schema_violation
     (JObj [(''type'', JStr ''FeatureCollection''),
            (''features'', JArr [JObj [(''type'', JStr ''Feature''), (''geometry'', JNull),
                                      (''properties'', JStr ''n/a'')]])])
     = Inr (True, ''Valid GeoJSON'') \<and>
   compare_geojson
     (JObj [(''type'', JStr ''FeatureCollection''),
            (''features'', JArr [JObj [(''type'', JStr ''Feature''), (''geometry'', JNull),
                                      (''properties'', JStr ''n/a'')]])])
     (JObj [(''type'', JStr ''FeatureCollection''),
            (''features'', JArr [JObj [(''type'', JStr ''Feature''), (''geometry'', JNull),
                                      (''properties'', JStr ''n/a'')]])])
     = Inl (no_attribute (JStr ''n/a'') ''keys'')"
  by (simp add: validate_geojson_def validate_try_def jsonschema_validate_def
      conforms_def geojson_schema_def prop_conforms_def compare_geojson_def collect_keys_def)



text \<open>
  Claim C10. For two documents of type \<^verbatim>\<open>FeatureCollection\<close>, every report that
  \<^verbatim>\<open>compare_geojson\<close> returns has three key lists that are pairwise disjoint as sets, the
  first and the third making up the property keys of the first document's features, the
  second and the third those of the second document's. A report is returned exactly when
  both feature sequences can be read.
\<close>
theorem compare_keys_partition:
  assumes "typed_as a ''FeatureCollection''" and "typed_as b ''FeatureCollection''"
  shows "((\<exists>r. compare_geojson a b = Inr r) \<longleftrightarrow>
            (\<exists>fs1 fs2. features_iter a = Inr fs1 \<and> features_iter b = Inr fs2 \<and>
                       list_all collectable fs1 \<and> list_all collectable fs2)) \<and>
         (\<forall>r. compare_geojson a b = Inr r \<longrightarrow>
            (\<exists>fs1 fs2 u1 u2 c.
               features_iter a = Inr fs1 \<and> features_iter b = Inr fs2 \<and>
               unique_keys_1 r = Some u1 \<and> unique_keys_2 r = Some u2 \<and> common_keys r = Some c \<and>
               set u1 \<inter> set u2 = {} \<and> set u1 \<inter> set c = {} \<and> set u2 \<inter> set c = {} \<and>
               set u1 \<union> set c = key_universe fs1 \<and> set u2 \<union> set c = key_universe fs2))"
proof -
  have "\<exists>fs1 fs2 u1 u2 c.
               features_iter a = Inr fs1 \<and> features_iter b = Inr fs2 \<and>
               unique_keys_1 r = Some u1 \<and> unique_keys_2 r = Some u2 \<and> common_keys r = Some c \<and>
               set u1 \<inter> set u2 = {} \<and> set u1 \<inter> set c = {} \<and> set u2 \<inter> set c = {} \<and>
               set u1 \<union> set c = key_universe fs1 \<and> set u2 \<union> set c = key_universe fs2"
    if "compare_geojson a b = Inr r" for r
  proof -
    from that obtain fs1 fs2 k1 k2 where
      f: "features_iter a = Inr fs1" "features_iter b = Inr fs2"
      and k1: "keys_loop [] fs1 = Inr k1" and k2: "keys_loop [] fs2 = Inr k2"
      and r: "r = \<lparr>different_types = False,
                   feature_count_1 = Some (length fs1), feature_count_2 = Some (length fs2),
                   feature_count_diff = Some (int (length fs1) - int (length fs2)),
                   unique_keys_1 = Some (filter (\<lambda>k. k \<notin> set k2) k1),
                   unique_keys_2 = Some (filter (\<lambda>k. k \<notin> set k1) k2),
                   common_keys = Some (filter (\<lambda>k. k \<in> set k2) k1)\<rparr>"
      unfolding compare_collections_iff [OF assms] by blast
    have s1: "set k1 = key_universe fs1" and s2: "set k2 = key_universe fs2"
      using keys_loop_Inr [OF k1] keys_loop_Inr [OF k2] by auto
    have "set (filter (\<lambda>k. k \<notin> set k2) k1) \<inter> set (filter (\<lambda>k. k \<notin> set k1) k2) = {}"
      and "set (filter (\<lambda>k. k \<notin> set k2) k1) \<inter> set (filter (\<lambda>k. k \<in> set k2) k1) = {}"
      and "set (filter (\<lambda>k. k \<notin> set k1) k2) \<inter> set (filter (\<lambda>k. k \<in> set k2) k1) = {}"
      and "set (filter (\<lambda>k. k \<notin> set k2) k1) \<union> set (filter (\<lambda>k. k \<in> set k2) k1) = key_universe fs1"
      and "set (filter (\<lambda>k. k \<notin> set k1) k2) \<union> set (filter (\<lambda>k. k \<in> set k2) k1) = key_universe fs2"
      using s1 s2 by auto
    with f r show ?thesis by simp
  qed
  with compare_returns_iff [OF assms] show ?thesis by blast
qed

text \<open>The statement at the two sample documents.\<close>
theorem compare_keys_partition_witness:
  "typed_as sample_geojson1 ''FeatureCollection'' \<and> typed_as sample_geojson2 ''FeatureCollection'' \<and>
   compare_geojson sample_geojson1 sample_geojson2 =
     Inr \<lparr>different_types = False, feature_count_1 = Some 2, feature_count_2 = Some 2,
          feature_count_diff = Some 0,
          unique_keys_1 = Some [''length'', ''value''],
          unique_keys_2 = Some [''area'', ''elevation''],
          common_keys = Some [''name'']\<rparr> \<and>
   (\<exists>fs1 fs2. features_iter sample_geojson1 = Inr fs1 \<and> features_iter sample_geojson2 = Inr fs2 \<and>
      set [''length'', ''value''] \<union> set [''name''] = key_universe fs1 \<and>
      set [''area'', ''elevation''] \<union> set [''name''] = key_universe fs2)"
proof -
  have t: "typed_as sample_geojson1 ''FeatureCollection''" "typed_as sample_geojson2 ''FeatureCollection''"
    by (simp_all add: typed_as_def sample_geojson1_def sample_geojson2_def)
  from compare_keys_partition [OF t] compare_samples t show ?thesis
    by fastforce
qed

end
